theory Spec2Isabelle
  imports Complex_Main "HOL-Library.Word"
begin

unbundle bit_operations_syntax

section \<open>Shared vocabulary\<close>

text \<open>
  Python exceptions that the modelled methods can raise. \<open>GLibError\<close> stands for the
  \<^verbatim>\<open>GLib.Error\<close> that the external image loader raises on an unreadable file,
  \<open>AttributeError\<close> for a method call on \<^verbatim>\<open>None\<close>.
  Python floats are modelled by the reals, Python ints by \<open>int\<close>.
\<close>

datatype error =
    ValueError string
  | ZeroDivisionError
  | AttributeError
  | IndexError
  | GLibError string
  | UnsupportedFormat string

section \<open>pympress.pointer\<close>

subsection \<open>Module constants\<close>

definition POINTER_HIDE :: int where
  "POINTER_HIDE = 0"

definition POINTER_SHOW :: int where
  "POINTER_SHOW = 1"

definition POINTERMODE_CONTINEOUS :: int where
  "POINTERMODE_CONTINEOUS = 1"

definition POINTERMODE_MANUAL :: int where
  "POINTERMODE_MANUAL = 0"

definition POINTERMODE_DISABLED :: int where
  "POINTERMODE_DISABLED = - 1"

subsection \<open>The toolkit objects the pointer talks to\<close>

text \<open>
  A widget as far as the pointer code reads it: its name, its allocated size
  (\<^verbatim>\<open>get_allocated_width\<close>, \<^verbatim>\<open>get_allocated_height\<close>) and whether
  \<^verbatim>\<open>get_window()\<close> returns a window.
\<close>

record widget =
  widget_name :: string
  allocated_width :: int
  allocated_height :: int
  has_window :: bool

text \<open>The members of \<^verbatim>\<open>Gdk.EventType\<close> that matter for pointer input.\<close>

datatype event_type =
    MOTION_NOTIFY
  | BUTTON_PRESS
  | DOUBLE_BUTTON_PRESS
  | TRIPLE_BUTTON_PRESS
  | BUTTON_RELEASE
  | KEY_PRESS
  | SCROLL

text \<open>
  An event: its type, its modifier state (a \<^verbatim>\<open>guint\<close> bit mask) and its
  coordinates (two doubles, relative to the widget's window).
\<close>

record event =
  type :: event_type
  get_state :: "32 word"
  get_coords :: "real \<times> real"

text \<open>\<^verbatim>\<open>Gdk.ModifierType.CONTROL_MASK\<close> is \<^verbatim>\<open>1 << 2\<close>.\<close>

definition CONTROL_MASK :: "32 word" where
  "CONTROL_MASK = push_bit 2 1"

text \<open>An image: the empty one of the class attribute, or one read from a file.\<close>

datatype pixbuf = Pixbuf_empty | Pixbuf_of_file string

text \<open>
  What the pointer does to the outside: a cursor set on a widget
  (\<^verbatim>\<open>extras.Cursor.set_cursor\<close>) and a call of the redraw callback.
\<close>

datatype effect =
    SetCursor string string
  | RedrawCurrentSlide

subsection \<open>The state of a Pointer\<close>

record pointer_state =
  pointer :: pixbuf
  pointer_pos :: "real \<times> real"
  show_pointer :: int
  pointer_mode :: int
  p_da_cur :: "widget option"
  effects :: "effect list"

text \<open>The class attributes, before \<^verbatim>\<open>__init__\<close> has run.\<close>

definition Pointer :: pointer_state where
  "Pointer =
     \<lparr> pointer = Pixbuf_empty,
       pointer_pos = (1 / 2, 1 / 2),
       show_pointer = POINTER_HIDE,
       pointer_mode = POINTERMODE_MANUAL,
       p_da_cur = None,
       effects = [] \<rparr>"

subsection \<open>Operations\<close>

text \<open>
  Every method returns what it returned or raised, and the state it left behind:
  an exception does not undo the assignments made before it.

  \<^verbatim>\<open>util.get_icon_path\<close> and \<^verbatim>\<open>GdkPixbuf.Pixbuf.new_from_file\<close> are not part
  of the modelled files: they are the parameters \<open>get_icon_path\<close> and
  \<open>new_from_file\<close>, the latter giving either the message of the \<^verbatim>\<open>GLib.Error\<close>
  it raised or the image.
\<close>

definition load_pointer ::
  "(string \<Rightarrow> string) \<Rightarrow> (string \<Rightarrow> string + pixbuf) \<Rightarrow>
     pointer_state \<Rightarrow> string \<Rightarrow> (error + unit) \<times> pointer_state" where
  "load_pointer get_icon_path new_from_file s name =
     (if name \<in> set [''pointer_red'', ''pointer_green'', ''pointer_blue''] then
        (case new_from_file (get_icon_path (name @ ''.png'')) of
           Inl msg \<Rightarrow> (Inl (GLibError msg), s)
         | Inr pb \<Rightarrow> (Inr (), s\<lparr>pointer := pb\<rparr>))
      else (Inl (ValueError ''Wrong color name''), s))"

definition activate_pointermode ::
  "pointer_state \<Rightarrow> string option \<Rightarrow> (error + unit) \<times> pointer_state" where
  "activate_pointermode s mode =
     (let s1 =
            (if mode = Some ''continous'' then
               s\<lparr>show_pointer := POINTER_SHOW, pointer_mode := POINTERMODE_CONTINEOUS\<rparr>
             else if mode = Some ''manual'' then
               s\<lparr>show_pointer := POINTER_HIDE, pointer_mode := POINTERMODE_MANUAL\<rparr>
             else if mode = Some ''none'' then
               s\<lparr>show_pointer := POINTER_HIDE, pointer_mode := POINTERMODE_DISABLED\<rparr>
             else s)
      in
      case p_da_cur s1 of
        None \<Rightarrow> (Inl AttributeError, s1)
      | Some da \<Rightarrow>
          if has_window da then
            (Inr (),
             s1\<lparr>effects := effects s1 @
                [SetCursor (widget_name da)
                   (if pointer_mode s1 = POINTERMODE_CONTINEOUS then ''invisible''
                    else ''parent''),
                 RedrawCurrentSlide]\<rparr>)
          else (Inr (), s1))"

definition track_pointer ::
  "pointer_state \<Rightarrow> widget \<Rightarrow> event \<Rightarrow> (error + bool) \<times> pointer_state" where
  "track_pointer s w ev =
     (if show_pointer s = POINTER_SHOW then
        (let ww = allocated_width w; wh = allocated_height w;
             (ex, ey) = get_coords ev
         in if ww = 0 \<or> wh = 0 then (Inl ZeroDivisionError, s)
            else (Inr True,
                  s\<lparr>pointer_pos := (ex / real_of_int ww, ey / real_of_int wh),
                    effects := effects s @ [RedrawCurrentSlide]\<rparr>))
      else (Inr False, s))"

definition toggle_pointer ::
  "pointer_state \<Rightarrow> widget \<Rightarrow> event \<Rightarrow> (error + bool) \<times> pointer_state" where
  "toggle_pointer s w ev =
     (if pointer_mode s = POINTERMODE_DISABLED then (Inr False, s)
      else if pointer_mode s = POINTERMODE_CONTINEOUS then (Inr False, s)
      else
        (let ctrl_pressed = get_state ev AND CONTROL_MASK in
         if ctrl_pressed \<noteq> 0 \<and> type ev = BUTTON_PRESS then
           track_pointer
             (s\<lparr>show_pointer := POINTER_SHOW,
                effects := effects s @ [SetCursor (widget_name w) ''invisible'']\<rparr>) w ev
         else if show_pointer s = POINTER_SHOW \<and> type ev = BUTTON_RELEASE then
           (Inr True,
            s\<lparr>show_pointer := POINTER_HIDE,
              effects := effects s @
                [SetCursor (widget_name w) ''parent'', RedrawCurrentSlide]\<rparr>)
         else (Inr False, s)))"

text \<open>
  \<^verbatim>\<open>__init__\<close>, as far as it touches the pointer's own fields: the widget
  \<open>da\<close> is what \<^verbatim>\<open>builder.load_widgets\<close> stores in \<^verbatim>\<open>p_da_cur\<close>, and
  \<open>default_mode\<close>, \<open>default_pointer\<close> are the two preferences read from the
  configuration.
\<close>

definition init ::
  "(string \<Rightarrow> string) \<Rightarrow> (string \<Rightarrow> string + pixbuf) \<Rightarrow>
     widget \<Rightarrow> string \<Rightarrow> string \<Rightarrow> (error + unit) \<times> pointer_state" where
  "init get_icon_path new_from_file da default_mode default_pointer =
     (case activate_pointermode (Pointer\<lparr>p_da_cur := Some da\<rparr>) (Some default_mode) of
        (Inl e, s1) \<Rightarrow> (Inl e, s1)
      | (Inr u, s1) \<Rightarrow>
          load_pointer get_icon_path new_from_file s1 (''pointer_'' @ default_pointer))"

text \<open>The control modifier is held in an event when bit 2 of its state is set.\<close>

definition ctrl_held :: "event \<Rightarrow> bool" where
  "ctrl_held ev = bit (get_state ev) 2"

definition in_unit_square :: "real \<times> real \<Rightarrow> bool" where
  "in_unit_square p = (0 \<le> fst p \<and> fst p \<le> 1 \<and> 0 \<le> snd p \<and> snd p \<le> 1)"

text \<open>The coordinates of an event lie within the allocation of a widget.\<close>

definition event_inside :: "widget \<Rightarrow> event \<Rightarrow> bool" where
  "event_inside w ev =
     (0 \<le> fst (get_coords ev) \<and> fst (get_coords ev) \<le> real_of_int (allocated_width w) \<and>
      0 \<le> snd (get_coords ev) \<and> snd (get_coords ev) \<le> real_of_int (allocated_height w))"

subsection \<open>Concrete inputs\<close>

text \<open>
  A 200 by 100 drawing area, a pointer in manual mode attached to it, and events on it:
  a press with the control key held at (100, 50), a plain press, a release, and a motion
  at (300, 50), right of the area, as delivered while a button is held.
\<close>

definition p_da :: widget where
  "p_da = \<lparr> widget_name = ''p_da_cur'', allocated_width = 200, allocated_height = 100,
            has_window = True \<rparr>"

definition manual_pointer :: pointer_state where
  "manual_pointer = Pointer\<lparr>p_da_cur := Some p_da\<rparr>"

definition ctrl_press :: event where
  "ctrl_press = \<lparr> type = BUTTON_PRESS, get_state = 4, get_coords = (100, 50) \<rparr>"

definition plain_press :: event where
  "plain_press = \<lparr> type = BUTTON_PRESS, get_state = 0, get_coords = (100, 50) \<rparr>"

definition release :: event where
  "release = \<lparr> type = BUTTON_RELEASE, get_state = 256, get_coords = (100, 50) \<rparr>"

definition motion_outside :: event where
  "motion_outside = \<lparr> type = MOTION_NOTIFY, get_state = 260, get_coords = (300, 50) \<rparr>"

definition icon_path :: "string \<Rightarrow> string" where
  "icon_path f = ''share/pixmaps/'' @ f"

definition read_icon :: "string \<Rightarrow> string + pixbuf" where
  "read_icon path = Inr (Pixbuf_of_file path)"

section \<open>Python built-ins used by the media overlay\<close>

text \<open>
  \<^verbatim>\<open>str\<close> of an int: decimal digits, with a leading minus sign for a negative one.
\<close>

definition digit_char :: "nat \<Rightarrow> char" where
  "digit_char d = ''0123456789'' ! d"

fun str_nat :: "nat \<Rightarrow> string" where
  "str_nat n =
     (if n < 10 then [digit_char n] else str_nat (n div 10) @ [digit_char (n mod 10)])"

definition str_int :: "int \<Rightarrow> string" where
  "str_int i = (if i < 0 then CHR ''-'' # str_nat (nat (- i)) else str_nat (nat i))"

definition is_digit :: "char \<Rightarrow> bool" where
  "is_digit c = (c \<in> set ''0123456789'')"

definition nat_of_digits :: "string \<Rightarrow> nat" where
  "nat_of_digits ds = foldl (\<lambda>a c. 10 * a + (of_char c - 48)) 0 ds"

text \<open>
  \<^verbatim>\<open>format(i, spec)\<close> for an int and a format specification made of digits only, the
  only kind the overlay uses: a leading \<^verbatim>\<open>0\<close> asks for sign-aware zero padding to the
  width that follows, otherwise the number is right-aligned with spaces. The empty
  specification is \<^verbatim>\<open>str\<close>. Any other specification is outside the modelled fragment.
\<close>

definition format_int :: "string \<Rightarrow> int \<Rightarrow> error + string" where
  "format_int spec i =
     (if spec = [] then Inr (str_int i)
      else if \<not> list_all is_digit spec then Inl (UnsupportedFormat spec)
      else
        (let sign = (if i < 0 then [CHR ''-''] else []);
             body = str_nat (nat \<bar>i\<bar>)
         in if hd spec = CHR ''0'' then
              Inr (sign @
                   replicate (nat_of_digits (tl spec) - length sign - length body) CHR ''0'' @
                   body)
            else
              Inr (replicate (nat_of_digits spec - length sign - length body) CHR '' '' @
                   sign @ body)))"

text \<open>
  \<^verbatim>\<open>fmt.format(*args)\<close> with automatically numbered replacement fields
  \<^verbatim>\<open>{:spec}\<close> and the escapes \<^verbatim>\<open>{{\<close> and \<^verbatim>\<open>}}\<close>. A field that names or
  indexes its argument is outside the modelled fragment. Surplus arguments are ignored,
  a missing one raises \<^verbatim>\<open>IndexError\<close>, an unbalanced brace \<^verbatim>\<open>ValueError\<close>.
\<close>

function str_format :: "string \<Rightarrow> int list \<Rightarrow> error + string" where
  "str_format [] args = Inr []"
| "str_format (c # cs) args =
     (if c = CHR ''{'' then
        (if cs \<noteq> [] \<and> hd cs = CHR ''{'' then
           map_sum id ((#) CHR ''{'') (str_format (tl cs) args)
         else
           (let field = takeWhile (\<lambda>x. x \<noteq> CHR ''}'') cs;
                rest = dropWhile (\<lambda>x. x \<noteq> CHR ''}'') cs
            in if rest = [] then Inl (ValueError ''expected } before end of string'')
               else if field \<noteq> [] \<and> hd field \<noteq> CHR '':'' then Inl (UnsupportedFormat field)
               else
                 (case args of
                    [] \<Rightarrow> Inl IndexError
                  | a # as \<Rightarrow>
                      (case format_int (tl field) a of
                         Inl e \<Rightarrow> Inl e
                       | Inr str \<Rightarrow> map_sum id ((@) str) (str_format (tl rest) as)))))
      else if c = CHR ''}'' then
        (if cs \<noteq> [] \<and> hd cs = CHR ''}'' then
           map_sum id ((#) CHR ''}'') (str_format (tl cs) args)
         else Inl (ValueError ''Single } encountered in format string''))
      else map_sum id ((#) c) (str_format cs args))"
  by pat_completeness auto

termination
proof (relation "measure (\<lambda>(fmt, args). length fmt)")
  have shorter: "length (dropWhile (\<lambda>x. x \<noteq> CHR ''}'') cs) - Suc 0 < Suc (length cs)"
    for cs :: string
    using length_dropWhile_le [of "\<lambda>x. x \<noteq> CHR ''}''" cs] by simp
  show "\<And>c cs args x xa x21 x22 b.
       \<lbrakk>c = CHR ''{''; \<not> (cs \<noteq> [] \<and> hd cs = CHR ''{'');
        x = takeWhile (\<lambda>x. x \<noteq> CHR ''}'') cs; xa = dropWhile (\<lambda>x. x \<noteq> CHR ''}'') cs;
        xa \<noteq> []; \<not> (x \<noteq> [] \<and> hd x \<noteq> CHR '':''); args = x21 # x22;
        format_int (tl x) x21 = Inr b\<rbrakk>
       \<Longrightarrow> ((tl xa, x22), c # cs, args) \<in> measure (\<lambda>(fmt, args). length fmt)"
    using shorter by simp
qed auto

text \<open>
  \<^verbatim>\<open>round\<close> of a float, as Python 3 has it: the nearest integer, a tie going to the
  even neighbour. \<^verbatim>\<open>int\<close> of the result changes nothing.
\<close>

definition py_round :: "real \<Rightarrow> int" where
  "py_round x =
     (let f = \<lfloor>x\<rfloor>; d = x - of_int f
      in if d < 1 / 2 then f
         else if 1 / 2 < d then f + 1
         else if even f then f else f + 1)"

text \<open>\<^verbatim>\<open>divmod\<close> on ints rounds the quotient down, as \<open>div\<close> and \<open>mod\<close> do.\<close>

definition divmod_py :: "int \<Rightarrow> int \<Rightarrow> int \<times> int" where
  "divmod_py a b = (a div b, a mod b)"

section \<open>pympress.media_overlays.base\<close>

subsection \<open>The state of a VideoOverlay\<close>

text \<open>The progress bar, a \<^verbatim>\<open>Gtk.Scale\<close>: its range, its increments and its value.\<close>

record scale =
  lower :: real
  upper :: real
  step_increment :: real
  page_increment :: real
  scale_value :: real

text \<open>What the overlay does to its container, its widget and the log.\<close>

datatype overlay_effect =
    LogWarning "real \<times> real \<times> real \<times> real"
  | AddOverlay
  | ReorderOverlay int
  | QueueDraw
  | ShowWidget

text \<open>
  The fields of the overlay, and of the widgets it owns, that the modelled methods use:
  \<open>has_parent\<close> is whether \<^verbatim>\<open>media_overlay.get_parent()\<close> returns a container,
  \<open>visible\<close> the visibility flag of \<^verbatim>\<open>media_overlay\<close>, the four \<open>margin\<close> fields
  its \<^verbatim>\<open>props\<close>, \<open>parent_width\<close> and \<open>parent_height\<close> the allocated size of
  \<^verbatim>\<open>parent\<close>. The margins are left, top, right, bottom.
\<close>

record video_overlay =
  relative_margins :: "real \<times> real \<times> real \<times> real"
  time_format :: string
  maxval :: real
  progress :: scale
  has_parent :: bool
  visible :: bool
  margin_left :: real
  margin_right :: real
  margin_bottom :: real
  margin_top :: real
  parent_width :: int
  parent_height :: int
  overlay_effects :: "overlay_effect list"

text \<open>The class attribute \<^verbatim>\<open>time_format\<close>, in use until the duration is known.\<close>

definition default_time_format :: string where
  "default_time_format = ''{:01}:{:02}''"

text \<open>\<^verbatim>\<open>min\<close> of the tuple of four margins.\<close>

definition min_margins :: "real \<times> real \<times> real \<times> real \<Rightarrow> real" where
  "min_margins m = (case m of (l, t, r, b) \<Rightarrow> min l (min t (min r b)))"

subsection \<open>Operations\<close>

definition format_millis :: "video_overlay \<Rightarrow> scale \<Rightarrow> real \<Rightarrow> error + string" where
  "format_millis s sc prog =
     (case divmod_py (py_round prog) 60 of
        (m, sec) \<Rightarrow> str_format (time_format s) [m, sec])"


definition is_shown :: "video_overlay \<Rightarrow> bool" where
  "is_shown s = has_parent s"

definition resize :: "video_overlay \<Rightarrow> video_overlay" where
  "resize s =
     (if \<not> is_shown s then s
      else
        (case relative_margins s of
           (l, t, r, b) \<Rightarrow>
             s\<lparr>margin_left := real_of_int (parent_width s) * l,
               margin_right := real_of_int (parent_width s) * r,
               margin_bottom := real_of_int (parent_height s) * b,
               margin_top := real_of_int (parent_height s) * t\<rparr>))"

definition show_overlay :: "video_overlay \<Rightarrow> video_overlay" where
  "show_overlay s =
     (if min_margins (relative_margins s) < 0 then
        s\<lparr>overlay_effects := overlay_effects s @ [LogWarning (relative_margins s)]\<rparr>
      else
        (let s1 =
               (if \<not> has_parent s then
                  (let s2 = resize
                         (s\<lparr>has_parent := True,
                            overlay_effects := overlay_effects s @
                              [AddOverlay, ReorderOverlay 2]\<rparr>)
                   in s2\<lparr>overlay_effects := overlay_effects s2 @ [QueueDraw]\<rparr>)
                else s)
         in s1\<lparr>visible := True, overlay_effects := overlay_effects s1 @ [ShowWidget]\<rparr>))"

subsection \<open>The rendered shapes\<close>



subsection \<open>Concrete inputs\<close>

definition some_scale :: scale where
  "some_scale = \<lparr> lower = 0, upper = 1, step_increment = 0, page_increment = 0,
                   scale_value = 0 \<rparr>"

definition hidden_overlay :: video_overlay where
  "hidden_overlay =
     \<lparr> relative_margins = (1 / 4, 1 / 4, 1 / 4, 1 / 4),
       time_format = default_time_format,
       maxval = 1,
       progress = some_scale,
       has_parent = False,
       visible = False,
       margin_left = 0, margin_right = 0, margin_bottom = 0, margin_top = 0,
       parent_width = 800, parent_height = 600,
       overlay_effects = [] \<rparr>"

section \<open>Properties of the pointer\<close>

lemmas pointer_consts =
  POINTER_HIDE_def POINTER_SHOW_def POINTERMODE_CONTINEOUS_def
  POINTERMODE_MANUAL_def POINTERMODE_DISABLED_def

lemmas pointer_inputs =
  p_da_def manual_pointer_def ctrl_press_def plain_press_def release_def motion_outside_def
  Pointer_def icon_path_def read_icon_def

text \<open>Masking the state with \<open>CONTROL_MASK\<close> is non-zero exactly when bit 2 is set.\<close>

lemma ctrl_pressed_iff: "(get_state ev AND CONTROL_MASK \<noteq> 0) = ctrl_held ev"
  using and_exp_eq_0_iff_not_bit [of "get_state ev" 2]
  by (simp add: CONTROL_MASK_def ctrl_held_def)

subsection \<open>Where each operation leaves the position\<close>

lemma track_pointer_pos:
  "pointer_pos (snd (track_pointer s w ev)) =
     (if show_pointer s = POINTER_SHOW \<and> allocated_width w \<noteq> 0 \<and> allocated_height w \<noteq> 0
      then (fst (get_coords ev) / real_of_int (allocated_width w),
            snd (get_coords ev) / real_of_int (allocated_height w))
      else pointer_pos s)"
  by (simp add: track_pointer_def Let_def split: prod.split)

lemma toggle_pointer_pos:
  "pointer_pos (snd (toggle_pointer s w ev)) =
     (if pointer_mode s \<noteq> POINTERMODE_DISABLED \<and> pointer_mode s \<noteq> POINTERMODE_CONTINEOUS \<and>
         ctrl_held ev \<and> type ev = BUTTON_PRESS \<and>
         allocated_width w \<noteq> 0 \<and> allocated_height w \<noteq> 0
      then (fst (get_coords ev) / real_of_int (allocated_width w),
            snd (get_coords ev) / real_of_int (allocated_height w))
      else pointer_pos s)"
  by (simp add: toggle_pointer_def track_pointer_pos Let_def ctrl_pressed_iff)

lemma activate_pointermode_pos:
  "pointer_pos (snd (activate_pointermode s mode)) = pointer_pos s"
  by (simp add: activate_pointermode_def Let_def split: option.split)

lemma load_pointer_pos:
  "pointer_pos (snd (load_pointer g f s name)) = pointer_pos s"
  by (simp add: load_pointer_def split: sum.split)

lemma init_pos:
  "pointer_pos (snd (init g f da m c)) = (1 / 2, 1 / 2)"
proof -
  obtain r s1 where a: "activate_pointermode (Pointer\<lparr>p_da_cur := Some da\<rparr>) (Some m) = (r, s1)"
    by (cases "activate_pointermode (Pointer\<lparr>p_da_cur := Some da\<rparr>) (Some m)")
  have "pointer_pos s1 = pointer_pos (Pointer\<lparr>p_da_cur := Some da\<rparr>)"
    using activate_pointermode_pos [of "Pointer\<lparr>p_da_cur := Some da\<rparr>" "Some m"] a by simp
  then have p: "pointer_pos s1 = (1 / 2, 1 / 2)"
    by (simp add: Pointer_def)
  show ?thesis
    by (cases r) (simp_all add: init_def a p load_pointer_pos)
qed

lemma quotient_in_unit:
  fixes x :: real and n :: int
  assumes "0 \<le> x" "x \<le> real_of_int n" "n \<noteq> 0"
  shows "0 \<le> x / real_of_int n \<and> x / real_of_int n \<le> 1"
proof -
  have "0 < real_of_int n" using assms by linarith
  then show ?thesis using assms by (simp add: divide_le_eq)
qed

subsection \<open>Toggling the pointer\<close>

text \<open>
  Claim C1. In DISABLED and in CONTINUOUS mode \<open>toggle_pointer\<close> reports every event
  as not consumed and returns the state as it was. In MANUAL mode a button press with
  the control modifier held makes the pointer SHOWN and, on a widget of non-zero size
  (the only kind the toolkit allocates), reports the event consumed; a button release
  while the pointer is SHOWN makes it HIDDEN and reports the event consumed; every
  other event is reported not consumed and changes nothing.
\<close>

theorem toggle_pointer_spec:
  "(pointer_mode s = POINTERMODE_DISABLED \<or> pointer_mode s = POINTERMODE_CONTINEOUS \<longrightarrow>
      toggle_pointer s w ev = (Inr False, s)) \<and>
   (pointer_mode s = POINTERMODE_MANUAL \<and> type ev = BUTTON_PRESS \<and> ctrl_held ev \<longrightarrow>
      show_pointer (snd (toggle_pointer s w ev)) = POINTER_SHOW \<and>
      (allocated_width w \<noteq> 0 \<and> allocated_height w \<noteq> 0 \<longrightarrow>
         fst (toggle_pointer s w ev) = Inr True)) \<and>
   (pointer_mode s = POINTERMODE_MANUAL \<and> type ev = BUTTON_RELEASE \<and>
    show_pointer s = POINTER_SHOW \<longrightarrow>
      fst (toggle_pointer s w ev) = Inr True \<and>
      show_pointer (snd (toggle_pointer s w ev)) = POINTER_HIDE) \<and>
   (pointer_mode s = POINTERMODE_MANUAL \<and>
    \<not> (type ev = BUTTON_PRESS \<and> ctrl_held ev) \<and>
    \<not> (type ev = BUTTON_RELEASE \<and> show_pointer s = POINTER_SHOW) \<longrightarrow>
      toggle_pointer s w ev = (Inr False, s))"
  by (auto simp add: toggle_pointer_def track_pointer_def Let_def ctrl_pressed_iff
      pointer_consts split: prod.split)

theorem toggle_pointer_spec_witness:
  "toggle_pointer (manual_pointer\<lparr>pointer_mode := POINTERMODE_DISABLED\<rparr>) p_da ctrl_press =
     (Inr False, manual_pointer\<lparr>pointer_mode := POINTERMODE_DISABLED\<rparr>) \<and>
   fst (toggle_pointer manual_pointer p_da ctrl_press) = Inr True \<and>
   show_pointer (snd (toggle_pointer manual_pointer p_da ctrl_press)) = POINTER_SHOW \<and>
   fst (toggle_pointer (snd (toggle_pointer manual_pointer p_da ctrl_press)) p_da release)
     = Inr True \<and>
   show_pointer (snd (toggle_pointer (snd (toggle_pointer manual_pointer p_da ctrl_press))
     p_da release)) = POINTER_HIDE \<and>
   toggle_pointer manual_pointer p_da plain_press = (Inr False, manual_pointer)"
proof -
  have press: "pointer_mode manual_pointer = POINTERMODE_MANUAL \<and>
      type ctrl_press = BUTTON_PRESS \<and> ctrl_held ctrl_press"
    by (simp add: pointer_inputs ctrl_held_def)
  have size: "allocated_width p_da \<noteq> 0 \<and> allocated_height p_da \<noteq> 0"
    by (simp add: p_da_def)
  have disabled: "pointer_mode (manual_pointer\<lparr>pointer_mode := POINTERMODE_DISABLED\<rparr>)
      = POINTERMODE_DISABLED"
    by simp
  have shown: "show_pointer (snd (toggle_pointer manual_pointer p_da ctrl_press))
      = POINTER_SHOW"
    using toggle_pointer_spec [of manual_pointer p_da ctrl_press] press by blast
  have mode: "pointer_mode (snd (toggle_pointer manual_pointer p_da ctrl_press))
      = POINTERMODE_MANUAL"
    by (simp add: toggle_pointer_def track_pointer_def Let_def pointer_inputs pointer_consts
        CONTROL_MASK_def)
  have rel: "type release = BUTTON_RELEASE"
    by (simp add: release_def)
  have plain: "pointer_mode manual_pointer = POINTERMODE_MANUAL \<and>
      \<not> (type plain_press = BUTTON_PRESS \<and> ctrl_held plain_press) \<and>
      \<not> (type plain_press = BUTTON_RELEASE \<and> show_pointer manual_pointer = POINTER_SHOW)"
    by (simp add: pointer_inputs ctrl_held_def)
  have c1: "toggle_pointer (manual_pointer\<lparr>pointer_mode := POINTERMODE_DISABLED\<rparr>) p_da
      ctrl_press = (Inr False, manual_pointer\<lparr>pointer_mode := POINTERMODE_DISABLED\<rparr>)"
    using toggle_pointer_spec [of "manual_pointer\<lparr>pointer_mode := POINTERMODE_DISABLED\<rparr>"
        p_da ctrl_press] disabled by simp
  have c2: "fst (toggle_pointer manual_pointer p_da ctrl_press) = Inr True"
    using toggle_pointer_spec [of manual_pointer p_da ctrl_press] press size by simp
  have c3: "fst (toggle_pointer (snd (toggle_pointer manual_pointer p_da ctrl_press)) p_da
        release) = Inr True \<and>
      show_pointer (snd (toggle_pointer (snd (toggle_pointer manual_pointer p_da ctrl_press))
        p_da release)) = POINTER_HIDE"
    using toggle_pointer_spec [of "snd (toggle_pointer manual_pointer p_da ctrl_press)"
        p_da release] shown mode rel by simp
  have c4: "toggle_pointer manual_pointer p_da plain_press = (Inr False, manual_pointer)"
    using toggle_pointer_spec [of manual_pointer p_da plain_press] plain by simp
  show ?thesis
    using c1 c2 shown c3 c4 by simp
qed

subsection \<open>Activating a mode\<close>

text \<open>
  Claim C2. \<open>activate_pointermode\<close> called with \<open>continous\<close> leaves (visibility, mode)
  at (SHOWN, CONTINUOUS), with \<open>manual\<close> at (HIDDEN, MANUAL), with \<open>none\<close> at
  (HIDDEN, DISABLED), whatever the state before.
\<close>

theorem activate_pointermode_spec:
  "show_pointer (snd (activate_pointermode s (Some ''continous''))) = POINTER_SHOW \<and>
   pointer_mode (snd (activate_pointermode s (Some ''continous''))) = POINTERMODE_CONTINEOUS \<and>
   show_pointer (snd (activate_pointermode s (Some ''manual''))) = POINTER_HIDE \<and>
   pointer_mode (snd (activate_pointermode s (Some ''manual''))) = POINTERMODE_MANUAL \<and>
   show_pointer (snd (activate_pointermode s (Some ''none''))) = POINTER_HIDE \<and>
   pointer_mode (snd (activate_pointermode s (Some ''none''))) = POINTERMODE_DISABLED"
  by (simp add: activate_pointermode_def Let_def split: option.split)

text \<open>
  Claim C9. \<open>activate_pointermode\<close> called with anything but the three recognised
  strings (no argument, or the correctly spelled \<open>continuous\<close>) leaves the visibility
  and the mode as they were.
\<close>

theorem activate_pointermode_other:
  "mode \<notin> {Some ''continous'', Some ''manual'', Some ''none''} \<Longrightarrow>
     show_pointer (snd (activate_pointermode s mode)) = show_pointer s \<and>
     pointer_mode (snd (activate_pointermode s mode)) = pointer_mode s"
  by (simp add: activate_pointermode_def Let_def split: option.split)

theorem activate_pointermode_other_witness:
  "None \<notin> {Some ''continous'', Some ''manual'', Some ''none''} \<and>
   Some ''continuous'' \<notin> {Some ''continous'', Some ''manual'', Some ''none''} \<and>
   show_pointer (snd (activate_pointermode manual_pointer None)) = POINTER_HIDE \<and>
   pointer_mode (snd (activate_pointermode manual_pointer None)) = POINTERMODE_MANUAL \<and>
   show_pointer (snd (activate_pointermode manual_pointer (Some ''continuous''))) =
     POINTER_HIDE \<and>
   pointer_mode (snd (activate_pointermode manual_pointer (Some ''continuous''))) =
     POINTERMODE_MANUAL"
proof -
  have a: "None \<notin> {Some ''continous'', Some ''manual'', Some ''none''}"
    by simp
  have b: "Some ''continuous'' \<notin> {Some ''continous'', Some ''manual'', Some ''none''}"
    by simp
  have c: "show_pointer manual_pointer = POINTER_HIDE"
    "pointer_mode manual_pointer = POINTERMODE_MANUAL"
    by (simp_all add: manual_pointer_def Pointer_def)
  show ?thesis
    using activate_pointermode_other [OF a, of manual_pointer]
      activate_pointermode_other [OF b, of manual_pointer] a b c
    by simp
qed

subsection \<open>Tracking the pointer\<close>

text \<open>
  Claim C6. While the pointer is SHOWN, \<open>track_pointer\<close> on a widget of non-zero size
  sets the position to exactly (event x / widget width, event y / widget height),
  requests one redraw and reports the event consumed. While the pointer is not SHOWN it
  changes nothing, requests no redraw, and reports the event not consumed.
\<close>

theorem track_pointer_spec:
  "(show_pointer s = POINTER_SHOW \<and> allocated_width w \<noteq> 0 \<and> allocated_height w \<noteq> 0 \<longrightarrow>
      track_pointer s w ev =
        (Inr True,
         s\<lparr>pointer_pos := (fst (get_coords ev) / real_of_int (allocated_width w),
                           snd (get_coords ev) / real_of_int (allocated_height w)),
           effects := effects s @ [RedrawCurrentSlide]\<rparr>)) \<and>
   (show_pointer s \<noteq> POINTER_SHOW \<longrightarrow> track_pointer s w ev = (Inr False, s))"
  by (simp add: track_pointer_def Let_def split: prod.split)

theorem track_pointer_spec_witness:
  "track_pointer (manual_pointer\<lparr>show_pointer := POINTER_SHOW\<rparr>) p_da ctrl_press =
     (Inr True,
      manual_pointer\<lparr>show_pointer := POINTER_SHOW, pointer_pos := (1 / 2, 1 / 2),
        effects := [RedrawCurrentSlide]\<rparr>) \<and>
   track_pointer manual_pointer p_da ctrl_press = (Inr False, manual_pointer)"
proof -
  have shown: "show_pointer (manual_pointer\<lparr>show_pointer := POINTER_SHOW\<rparr>) = POINTER_SHOW \<and>
      allocated_width p_da \<noteq> 0 \<and> allocated_height p_da \<noteq> 0"
    by (simp add: p_da_def)
  have hidden: "show_pointer manual_pointer \<noteq> POINTER_SHOW"
    by (simp add: manual_pointer_def Pointer_def pointer_consts)
  have c1: "track_pointer (manual_pointer\<lparr>show_pointer := POINTER_SHOW\<rparr>) p_da ctrl_press =
     (Inr True,
      manual_pointer\<lparr>show_pointer := POINTER_SHOW, pointer_pos := (1 / 2, 1 / 2),
        effects := [RedrawCurrentSlide]\<rparr>)"
    using track_pointer_spec [of "manual_pointer\<lparr>show_pointer := POINTER_SHOW\<rparr>" p_da
        ctrl_press] shown
    by (simp add: pointer_inputs)
  have c2: "track_pointer manual_pointer p_da ctrl_press = (Inr False, manual_pointer)"
    using track_pointer_spec [of manual_pointer p_da ctrl_press] hidden by simp
  show ?thesis
    using c1 c2 by simp
qed

subsection \<open>Loading an icon\<close>

text \<open>
  Claim C7. \<open>load_pointer\<close> raises its \<open>ValueError\<close> exactly for the names other than
  \<open>pointer_red\<close>, \<open>pointer_green\<close> and \<open>pointer_blue\<close>; it can only succeed for one of
  these three, and does succeed for each of them whose image file the loader can read.
\<close>

theorem load_pointer_raises_iff:
  "(fst (load_pointer g f s name) = Inl (ValueError ''Wrong color name'')) =
     (name \<notin> {''pointer_red'', ''pointer_green'', ''pointer_blue''}) \<and>
   ((\<exists>e. fst (load_pointer g f s name) = Inl (ValueError e)) =
     (name \<notin> {''pointer_red'', ''pointer_green'', ''pointer_blue''})) \<and>
   (fst (load_pointer g f s name) = Inr () \<longrightarrow>
      name \<in> {''pointer_red'', ''pointer_green'', ''pointer_blue''}) \<and>
   (name \<in> {''pointer_red'', ''pointer_green'', ''pointer_blue''} \<and>
    f (g (name @ ''.png'')) = Inr pb \<longrightarrow>
      load_pointer g f s name = (Inr (), s\<lparr>pointer := pb\<rparr>))"
  by (auto simp add: load_pointer_def split: sum.split)

theorem load_pointer_raises_iff_witness:
  "load_pointer icon_path read_icon manual_pointer ''pointer_green'' =
     (Inr (), manual_pointer\<lparr>pointer := Pixbuf_of_file ''share/pixmaps/pointer_green.png''\<rparr>) \<and>
   fst (load_pointer icon_path read_icon manual_pointer ''green'') =
     Inl (ValueError ''Wrong color name'')"
proof -
  have ok: "''pointer_green'' \<in> {''pointer_red'', ''pointer_green'', ''pointer_blue''} \<and>
      read_icon (icon_path (''pointer_green'' @ ''.png'')) =
        Inr (Pixbuf_of_file ''share/pixmaps/pointer_green.png'')"
    by (simp add: icon_path_def read_icon_def)
  have bad: "''green'' \<notin> {''pointer_red'', ''pointer_green'', ''pointer_blue''}"
    by simp
  have c1: "load_pointer icon_path read_icon manual_pointer ''pointer_green'' =
     (Inr (), manual_pointer\<lparr>pointer := Pixbuf_of_file ''share/pixmaps/pointer_green.png''\<rparr>)"
    using load_pointer_raises_iff [of icon_path read_icon manual_pointer "''pointer_green''"
        "Pixbuf_of_file ''share/pixmaps/pointer_green.png''"] ok
    by blast
  have c2: "fst (load_pointer icon_path read_icon manual_pointer ''green'') =
     Inl (ValueError ''Wrong color name'')"
    using load_pointer_raises_iff [of icon_path read_icon manual_pointer "''green''"] bad
    by blast
  show ?thesis
    using c1 c2 by simp
qed

text \<open>
  Claim C10. When \<open>load_pointer\<close> raises, the pointer state, and with it the icon
  loaded before, is what it was.
\<close>

theorem load_pointer_error_keeps_state:
  "fst (load_pointer g f s name) = Inl e \<Longrightarrow>
     snd (load_pointer g f s name) = s \<and> pointer (snd (load_pointer g f s name)) = pointer s"
  by (auto simp add: load_pointer_def split: sum.splits if_splits)

theorem load_pointer_error_keeps_state_witness:
  "fst (load_pointer icon_path read_icon
          (manual_pointer\<lparr>pointer := Pixbuf_of_file ''share/pixmaps/pointer_red.png''\<rparr>)
          ''pointer_pink'') = Inl (ValueError ''Wrong color name'') \<and>
   pointer (snd (load_pointer icon_path read_icon
          (manual_pointer\<lparr>pointer := Pixbuf_of_file ''share/pixmaps/pointer_red.png''\<rparr>)
          ''pointer_pink'')) = Pixbuf_of_file ''share/pixmaps/pointer_red.png''"
proof -
  have raised: "fst (load_pointer icon_path read_icon
          (manual_pointer\<lparr>pointer := Pixbuf_of_file ''share/pixmaps/pointer_red.png''\<rparr>)
          ''pointer_pink'') = Inl (ValueError ''Wrong color name'')"
    by (simp add: load_pointer_def)
  show ?thesis
    using load_pointer_error_keeps_state [OF raised] raised by simp
qed

subsection \<open>The position and the unit square\<close>

text \<open>
  Claim C8, as stated, fails: the position does not always stay in the unit square.
  A press with the control key at (100, 50) on the 200 by 100 area shows the pointer;
  the motion event that follows at (300, 50), outside the area, puts the position at
  (3/2, 1/2).
\<close>

theorem pointer_pos_leaves_unit_square:
  "\<not> in_unit_square (pointer_pos (snd (track_pointer
       (snd (toggle_pointer manual_pointer p_da ctrl_press)) p_da motion_outside)))"
  by (simp add: track_pointer_def toggle_pointer_def Let_def in_unit_square_def
      pointer_inputs pointer_consts CONTROL_MASK_def)

text \<open>
  Claim C8, amended. The position starts in the unit square, at (1/2, 1/2), also after
  \<open>init\<close>; \<open>load_pointer\<close> and \<open>activate_pointermode\<close> never change it; and
  \<open>track_pointer\<close> and \<open>toggle_pointer\<close> keep it in the unit square for every event
  whose coordinates lie within the widget's allocation.
\<close>

theorem pointer_pos_in_unit_square:
  "in_unit_square (pointer_pos Pointer) \<and>
   in_unit_square (pointer_pos (snd (init g f da m c))) \<and>
   pointer_pos (snd (load_pointer g f s name)) = pointer_pos s \<and>
   pointer_pos (snd (activate_pointermode s mode)) = pointer_pos s \<and>
   (in_unit_square (pointer_pos s) \<and> event_inside w ev \<longrightarrow>
      in_unit_square (pointer_pos (snd (track_pointer s w ev))) \<and>
      in_unit_square (pointer_pos (snd (toggle_pointer s w ev))))"
  by (simp add: init_pos load_pointer_pos activate_pointermode_pos track_pointer_pos
      toggle_pointer_pos in_unit_square_def event_inside_def quotient_in_unit Pointer_def)

theorem pointer_pos_in_unit_square_witness:
  "in_unit_square (pointer_pos manual_pointer) \<and> event_inside p_da ctrl_press \<and>
   in_unit_square (pointer_pos (snd (track_pointer manual_pointer p_da ctrl_press))) \<and>
   in_unit_square (pointer_pos (snd (toggle_pointer manual_pointer p_da ctrl_press))) \<and>
   pointer_pos (snd (toggle_pointer manual_pointer p_da ctrl_press)) = (1 / 2, 1 / 2)"
proof -
  have h: "in_unit_square (pointer_pos manual_pointer) \<and> event_inside p_da ctrl_press"
    by (simp add: in_unit_square_def event_inside_def pointer_inputs)
  have v: "pointer_pos (snd (toggle_pointer manual_pointer p_da ctrl_press)) = (1 / 2, 1 / 2)"
    by (simp add: toggle_pointer_def track_pointer_def Let_def pointer_inputs pointer_consts
        CONTROL_MASK_def)
  show ?thesis
    using pointer_pos_in_unit_square [of icon_path read_icon p_da "''manual''" "''red''"
        manual_pointer "''pointer_red''" None p_da ctrl_press] h v
    by simp
qed

section \<open>Properties of the media overlay\<close>

subsection \<open>Digits and zero padding\<close>

declare str_nat.simps [simp del]

lemma str_nat_small: "n < 10 \<Longrightarrow> str_nat n = [digit_char n]"
  by (simp add: str_nat.simps)

lemma str_nat_nonempty: "str_nat n \<noteq> []"
  by (subst str_nat.simps) simp

lemma length_str_nat_pos: "Suc 0 \<le> length (str_nat n)"
  using str_nat_nonempty [of n] by (simp add: Suc_le_eq)

lemma str_nat_two: "10 \<le> n \<Longrightarrow> n < 100 \<Longrightarrow> str_nat n = [digit_char (n div 10), digit_char (n mod 10)]"
  by (subst str_nat.simps) (simp add: str_nat_small)

lemma format_int_01: "format_int ''01'' i = Inr (str_int i)"
proof -
  have "Suc 0 - length (str_nat n) = 0" for n
    using length_str_nat_pos [of n] by simp
  then show ?thesis
    by (simp add: format_int_def is_digit_def nat_of_digits_def str_int_def Let_def abs_if)
qed

lemma format_int_02:
  assumes "0 \<le> i" "i < 100"
  shows "format_int ''02'' i = Inr [digit_char (nat i div 10), digit_char (nat i mod 10)]"
proof (cases "nat i < 10")
  case True
  then show ?thesis using assms
    by (simp add: format_int_def is_digit_def nat_of_digits_def Let_def str_nat_small digit_char_def)
next
  case False
  then have "10 \<le> nat i" "nat i < 100" using assms by auto
  then show ?thesis using assms
    by (simp add: format_int_def is_digit_def nat_of_digits_def Let_def str_nat_two)
qed






lemma format_default:
  assumes "0 \<le> r" "r < 60"
  shows "str_format ''{:01}:{:02}'' [m, r] =
     Inr (str_int m @ [CHR '':'', digit_char (nat r div 10), digit_char (nat r mod 10)])"
  using assms by (simp add: format_int_01 format_int_02)






lemma py_round_of_int: "py_round (of_int k) = k"
  by (simp add: py_round_def)

subsection \<open>Formatting minutes and seconds\<close>

declare str_format.simps [simp del]








subsection \<open>The time label\<close>

text \<open>
  Claim C3. With the default time format, in use before any duration is known,
  \<open>format_millis\<close> rounds the second count, divides by 60, and writes the quotient
  unpadded, a colon, and the remainder as exactly two digits. On the boundary values:
  0 gives \<open>0:00\<close>, 59 gives \<open>0:59\<close>, 60 gives \<open>1:00\<close>, 125 gives \<open>2:05\<close>.
\<close>

theorem format_millis_default:
  "time_format s = default_time_format \<Longrightarrow>
     format_millis s sc prog =
       Inr (str_int (py_round prog div 60) @
            [CHR '':'', digit_char (nat (py_round prog mod 60) div 10),
             digit_char (nat (py_round prog mod 60) mod 10)]) \<and>
     format_millis s sc 0 = Inr ''0:00'' \<and>
     format_millis s sc 59 = Inr ''0:59'' \<and>
     format_millis s sc 60 = Inr ''1:00'' \<and>
     format_millis s sc 125 = Inr ''2:05''"
proof -
  assume tf: "time_format s = default_time_format"
  have gen: "format_millis s sc p =
       Inr (str_int (py_round p div 60) @
            [CHR '':'', digit_char (nat (py_round p mod 60) div 10),
             digit_char (nat (py_round p mod 60) mod 10)])" for p
  proof -
    have "str_format ''{:01}:{:02}'' [py_round p div 60, py_round p mod 60] =
       Inr (str_int (py_round p div 60) @
            [CHR '':'', digit_char (nat (py_round p mod 60) div 10),
             digit_char (nat (py_round p mod 60) mod 10)])"
      by (rule format_default) simp_all
    then show ?thesis
      by (simp only: format_millis_def divmod_py_def prod.case tf default_time_format_def)
  qed
  have r: "py_round 0 = 0" "py_round 59 = 59" "py_round 60 = 60" "py_round 125 = 125"
    using py_round_of_int [of 0] py_round_of_int [of 59] py_round_of_int [of 60]
      py_round_of_int [of 125] by simp_all
  have "format_millis s sc 0 = Inr ''0:00''"
    by (simp add: gen r str_int_def str_nat_small digit_char_def)
  moreover have "format_millis s sc 59 = Inr ''0:59''"
    by (simp add: gen r str_int_def str_nat_small digit_char_def)
  moreover have "format_millis s sc 60 = Inr ''1:00''"
    by (simp add: gen r str_int_def str_nat_small digit_char_def)
  moreover have "format_millis s sc 125 = Inr ''2:05''"
    by (simp add: gen r str_int_def str_nat_small digit_char_def)
  ultimately show ?thesis
    using gen [of prog] by simp
qed

theorem format_millis_default_witness:
  "time_format hidden_overlay = default_time_format \<and>
   format_millis hidden_overlay some_scale (251 / 2) = Inr ''2:06'' \<and>
   format_millis hidden_overlay some_scale 0 = Inr ''0:00'' \<and>
   format_millis hidden_overlay some_scale 59 = Inr ''0:59'' \<and>
   format_millis hidden_overlay some_scale 60 = Inr ''1:00'' \<and>
   format_millis hidden_overlay some_scale 125 = Inr ''2:05''"
proof -
  have h: "time_format hidden_overlay = default_time_format"
    by (simp add: hidden_overlay_def)
  have r: "py_round (251 / 2) = 126"
    by (simp add: py_round_def Let_def)
  show ?thesis
    using format_millis_default [OF h, of some_scale "251 / 2"] h
    by (simp add: r str_int_def str_nat_small digit_char_def)
qed




subsection \<open>Showing the overlay\<close>

text \<open>
  Claim C5. If any of the four relative margins is negative, \<open>show_overlay\<close> only logs
  a warning: nothing is attached, resized or shown, and every field of the overlay is
  as before. If all four are non-negative, the overlay ends attached and visible: one
  that was attached already is only shown; one that was not is added to the container,
  reordered, resized to the container's size and the container redrawn, then shown.
\<close>

theorem show_overlay_spec:
  "(relative_margins s = (l, t, r, b) \<and> (l < 0 \<or> t < 0 \<or> r < 0 \<or> b < 0) \<longrightarrow>
      show_overlay s =
        s\<lparr>overlay_effects := overlay_effects s @ [LogWarning (relative_margins s)]\<rparr> \<and>
      has_parent (show_overlay s) = has_parent s \<and>
      visible (show_overlay s) = visible s) \<and>
   (relative_margins s = (l, t, r, b) \<and> 0 \<le> l \<and> 0 \<le> t \<and> 0 \<le> r \<and> 0 \<le> b \<longrightarrow>
      has_parent (show_overlay s) \<and> visible (show_overlay s) \<and>
      (has_parent s \<longrightarrow>
         show_overlay s =
           s\<lparr>visible := True, overlay_effects := overlay_effects s @ [ShowWidget]\<rparr>) \<and>
      (\<not> has_parent s \<longrightarrow>
         show_overlay s =
           s\<lparr>has_parent := True,
             margin_left := real_of_int (parent_width s) * l,
             margin_right := real_of_int (parent_width s) * r,
             margin_bottom := real_of_int (parent_height s) * b,
             margin_top := real_of_int (parent_height s) * t,
             visible := True,
             overlay_effects := overlay_effects s @
               [AddOverlay, ReorderOverlay 2, QueueDraw, ShowWidget]\<rparr>))"
  by (auto simp add: show_overlay_def min_margins_def resize_def is_shown_def Let_def)

theorem show_overlay_spec_witness:
  "show_overlay (hidden_overlay\<lparr>relative_margins := (1 / 4, - 1 / 10, 1 / 4, 1 / 4)\<rparr>) =
     hidden_overlay\<lparr>relative_margins := (1 / 4, - 1 / 10, 1 / 4, 1 / 4),
       overlay_effects := [LogWarning (1 / 4, - 1 / 10, 1 / 4, 1 / 4)]\<rparr> \<and>
   show_overlay hidden_overlay =
     hidden_overlay\<lparr>has_parent := True, margin_left := 200, margin_right := 200,
       margin_bottom := 150, margin_top := 150, visible := True,
       overlay_effects := [AddOverlay, ReorderOverlay 2, QueueDraw, ShowWidget]\<rparr> \<and>
   show_overlay (show_overlay hidden_overlay) =
     (show_overlay hidden_overlay)
       \<lparr>visible := True,
        overlay_effects := overlay_effects (show_overlay hidden_overlay) @ [ShowWidget]\<rparr>"
proof -
  let ?neg = "hidden_overlay\<lparr>relative_margins := (1 / 4, - 1 / 10, 1 / 4, 1 / 4)\<rparr>"
  have hn: "relative_margins ?neg = (1 / 4, - 1 / 10, 1 / 4, 1 / 4) \<and>
      ((1 / 4 :: real) < 0 \<or> (- 1 / 10 :: real) < 0 \<or> (1 / 4 :: real) < 0 \<or> (1 / 4 :: real) < 0)"
    by simp
  have hp: "relative_margins hidden_overlay = (1 / 4, 1 / 4, 1 / 4, 1 / 4) \<and>
      (0 :: real) \<le> 1 / 4 \<and> (0 :: real) \<le> 1 / 4 \<and> (0 :: real) \<le> 1 / 4 \<and> (0 :: real) \<le> 1 / 4"
    by (simp add: hidden_overlay_def)
  have np: "\<not> has_parent hidden_overlay"
    by (simp add: hidden_overlay_def)
  have c1: "show_overlay ?neg = ?neg\<lparr>overlay_effects := [LogWarning (1 / 4, - 1 / 10, 1 / 4, 1 / 4)]\<rparr>"
    using show_overlay_spec [of ?neg "1 / 4" "- 1 / 10" "1 / 4" "1 / 4"] hn
    by (simp add: hidden_overlay_def)
  have c2: "show_overlay hidden_overlay =
     hidden_overlay\<lparr>has_parent := True, margin_left := 200, margin_right := 200,
       margin_bottom := 150, margin_top := 150, visible := True,
       overlay_effects := [AddOverlay, ReorderOverlay 2, QueueDraw, ShowWidget]\<rparr>"
    using show_overlay_spec [of hidden_overlay "1 / 4" "1 / 4" "1 / 4" "1 / 4"] hp np
    by (simp add: hidden_overlay_def)
  have hp2: "relative_margins (show_overlay hidden_overlay) = (1 / 4, 1 / 4, 1 / 4, 1 / 4) \<and>
      (0 :: real) \<le> 1 / 4 \<and> (0 :: real) \<le> 1 / 4 \<and> (0 :: real) \<le> 1 / 4 \<and> (0 :: real) \<le> 1 / 4"
    by (simp add: c2) (simp add: hidden_overlay_def)
  have p2: "has_parent (show_overlay hidden_overlay)"
    by (simp add: c2)
  have c3: "show_overlay (show_overlay hidden_overlay) =
     (show_overlay hidden_overlay)
       \<lparr>visible := True,
        overlay_effects := overlay_effects (show_overlay hidden_overlay) @ [ShowWidget]\<rparr>"
    using show_overlay_spec [of "show_overlay hidden_overlay" "1 / 4" "1 / 4" "1 / 4" "1 / 4"]
      hp2 p2 by blast
  show ?thesis
    using c1 c2 c3 by simp
qed

end
